theory Spec2Isabelle
  imports Complex_Main "HOL-Library.Word"
begin

section \<open>Frames, detections and the drawing library\<close>

text \<open>
  A frame is the NumPy array that OpenCV hands out: rows of pixels, each pixel three
  unsigned bytes (B, G, R). The channel count is fixed by the pixel type.
\<close>

type_synonym pixel = "8 word \<times> 8 word \<times> 8 word"
type_synonym image = "pixel list list"
type_synonym point = "int \<times> int"
type_synonym ref = nat


text \<open>
  Exceptions are values. \<open>IndexError\<close> is what \<open>results[0]\<close> raises on an empty
  list, \<open>OSError\<close> what \<open>os.unlink\<close> raises; a detector may raise anything.
\<close>

datatype exn = IndexError | OSError | RuntimeError string

text \<open>
  One detection as \<open>process_frame\<close> reads it: \<open>cls\<close> is \<open>int(box.cls[0])\<close>,
  \<open>xyxy\<close> is \<open>map(int, box.xyxy[0])\<close>, \<open>conf\<close> is \<open>float(box.conf[0])\<close>.
  A result's \<open>boxes\<close> attribute may be \<open>None\<close>. The detector is called with the
  frame's content and returns a list of results or raises.
\<close>

record box =
  cls :: int
  xyxy :: "int \<times> int \<times> int \<times> int"
  conf :: real

record result =
  boxes :: "box list option"

type_synonym detector = "image \<Rightarrow> exn + result list"

text \<open>
  What the code takes from OpenCV and from Python's string formatting, as parameters:
  which pixels a rectangle of a given thickness covers (negative thickness: filled),
  the size of a label in \<open>FONT_HERSHEY_SIMPLEX\<close> at scale 0.5 and thickness 1, which
  pixels the glyphs of a label cover, and the format \<open>:.2f\<close>.
\<close>

record lib =
  rectangle_pixels :: "point \<Rightarrow> point \<Rightarrow> int \<Rightarrow> point list"
  getTextSize :: "string \<Rightarrow> int \<times> int"
  putText_pixels :: "string \<Rightarrow> point \<Rightarrow> point list"
  format_2f :: "real \<Rightarrow> string"

text \<open>
  Frames are mutable objects, so they live in a store and are passed by reference.
  \<open>calls\<close> is a history variable: the drawing calls made so far, in order. Nothing
  in the program reads it.
\<close>

datatype cv2_call =
    Rectangle ref point point pixel int
  | PutText ref string point pixel

record cvstate =
  heap :: "ref \<Rightarrow> image"
  calls :: "cv2_call list"

text \<open>
  OpenCV draws into the buffer it is given: a pixel inside the array is overwritten, a
  pixel outside is clipped away.
\<close>

definition set_pixel :: "pixel \<Rightarrow> point \<Rightarrow> image \<Rightarrow> image" where
  "set_pixel c p img =
     (case p of (x, y) \<Rightarrow>
        if 0 \<le> x \<and> 0 \<le> y \<and> nat y < length img \<and> nat x < length (img ! nat y)
        then img[nat y := (img ! nat y)[nat x := c]]
        else img)"

definition paint :: "image \<Rightarrow> point list \<Rightarrow> pixel \<Rightarrow> image" where
  "paint img pts c = fold (set_pixel c) pts img"

definition cv2_rectangle ::
  "lib \<Rightarrow> ref \<Rightarrow> point \<Rightarrow> point \<Rightarrow> pixel \<Rightarrow> int \<Rightarrow> cvstate \<Rightarrow> cvstate" where
  "cv2_rectangle L frame pt1 pt2 color thickness s =
     s\<lparr>heap := (heap s)(frame := paint (heap s frame) (rectangle_pixels L pt1 pt2 thickness) color),
       calls := calls s @ [Rectangle frame pt1 pt2 color thickness]\<rparr>"

definition cv2_putText ::
  "lib \<Rightarrow> ref \<Rightarrow> string \<Rightarrow> point \<Rightarrow> pixel \<Rightarrow> cvstate \<Rightarrow> cvstate" where
  "cv2_putText L frame label org color s =
     s\<lparr>heap := (heap s)(frame := paint (heap s frame) (putText_pixels L label org) color),
       calls := calls s @ [PutText frame label org color]\<rparr>"

section \<open>process_frame\<close>

text \<open>The body of \<open>if class_id == 0:\<close> after the count is incremented (lines 55 to 73).\<close>

definition draw_person :: "lib \<Rightarrow> ref \<Rightarrow> box \<Rightarrow> cvstate \<Rightarrow> cvstate" where
  "draw_person L frame b s =
     (case xyxy b of (x1, y1, x2, y2) \<Rightarrow>
        let confidence = conf b;
            s1 = cv2_rectangle L frame (x1, y1) (x2, y2) (0, 255, 0) 2 s;
            label = ''Person '' @ format_2f L confidence
        in case getTextSize L label of (label_width, label_height) \<Rightarrow>
          let s2 = cv2_rectangle L frame (x1, y1 - label_height - 10) (x1 + label_width, y1)
                     (0, 255, 0) (- 1) s1
          in cv2_putText L frame label (x1, y1 - 5) (0, 0, 0) s2)"

text \<open>The loop \<open>for box in result.boxes\<close>, carrying \<open>people_count\<close> and the store.\<close>

fun boxes_loop :: "lib \<Rightarrow> ref \<Rightarrow> box list \<Rightarrow> int \<Rightarrow> cvstate \<Rightarrow> int \<times> cvstate" where
  "boxes_loop L frame [] people_count s = (people_count, s)"
| "boxes_loop L frame (b # bs) people_count s =
     (let class_id = cls b
      in if class_id = 0
         then boxes_loop L frame bs (people_count + 1) (draw_person L frame b s)
         else boxes_loop L frame bs people_count s)"

text \<open>
  \<open>process_frame(frame, model)\<close>: the detector's exception propagates, \<open>results[0]\<close>
  raises \<open>IndexError\<close> on an empty list, and the function returns the reference it was
  given together with the count.
\<close>

definition process_frame ::
  "lib \<Rightarrow> ref \<Rightarrow> detector \<Rightarrow> cvstate \<Rightarrow> exn + ((ref \<times> int) \<times> cvstate)" where
  "process_frame L frame model s =
     (case model (heap s frame) of
        Inl e \<Rightarrow> Inl e
      | Inr results \<Rightarrow>
          (case results of
             [] \<Rightarrow> Inl IndexError
           | result # _ \<Rightarrow>
               (case boxes result of
                  None \<Rightarrow> Inr ((frame, 0), s)
                | Some bs \<Rightarrow>
                    (case boxes_loop L frame bs 0 s of
                       (people_count, s') \<Rightarrow> Inr ((frame, people_count), s')))))"

text \<open>Reading a result and a call log.\<close>

definition detections :: "result \<Rightarrow> box list" where
  "detections r = (case boxes r of None \<Rightarrow> [] | Some bs \<Rightarrow> bs)"

definition persons :: "result \<Rightarrow> box list" where
  "persons r = filter (\<lambda>b. cls b = 0) (detections r)"

fun is_rectangle :: "cv2_call \<Rightarrow> bool" where
  "is_rectangle (Rectangle _ _ _ _ _) = True"
| "is_rectangle (PutText _ _ _ _) = False"

fun is_outline :: "cv2_call \<Rightarrow> bool" where
  "is_outline (Rectangle _ _ _ _ thickness) = (0 < thickness)"
| "is_outline (PutText _ _ _ _) = False"

section \<open>The acquisition and display shell\<close>

text \<open>
  What \<open>main\<close> does to the outside, in order: the metric, the image placeholder, the
  messages of \<open>st.error\<close>, \<open>st.warning\<close>, \<open>st.info\<close> and \<open>st.success\<close>, and the
  calls of \<open>time.sleep\<close> with their argument.
\<close>

datatype event =
    Metric int
  | Image image
  | Error_camera
  | Error_video
  | Error_processing exn
  | Warning_upload
  | Warning_end
  | Info_stopped
  | Success_camera
  | Success_video
  | Sleep real

text \<open>
  The world of one run: the frame store, the event trace, the capture (how often it was
  read and released), and the temporary file. \<open>unlink_script\<close> says how the coming
  calls of \<open>os.unlink\<close> end (\<open>None\<close>: the file is removed; \<open>Some e\<close>: it raises
  \<open>e\<close> and the file stays); past its end every call succeeds. \<open>counts\<close> is a
  history variable: the count of every frame processed so far.
\<close>

record world =
  cv :: cvstate
  next_ref :: ref
  trace :: "event list"
  reads :: nat
  released :: nat
  temp_exists :: bool
  unlink_script :: "exn option list"
  counts :: "int list"

text \<open>
  What the environment gives one pass of the \<open>while\<close> loop: the answer of
  \<open>cap.isOpened()\<close>, the two readings of \<open>time.time()\<close>, and the answer of
  \<open>cap.read()\<close> (\<open>None\<close> when \<open>ret\<close> is false). Clock readings are real numbers.
\<close>

record tick =
  is_opened :: bool
  start_time :: real
  read_result :: "image option"
  end_time :: real



text \<open>
  How the run leaves the \<open>try\<close> block. \<open>Running\<close>: the environment's answers ran
  out while the loop was still going, so nothing after the loop has happened.
\<close>

datatype exit =
    OpenFailed
  | NoUpload
  | CapClosed
  | Stopped
  | EndOfStream
  | Raised exn
  | Running

definition emit :: "event \<Rightarrow> world \<Rightarrow> world" where
  "emit e w = w\<lparr>trace := trace w @ [e]\<rparr>"


text \<open>\<open>cap.read()\<close>: a frame that was read is a new array in the store.\<close>

definition cap_read :: "tick \<Rightarrow> world \<Rightarrow> ref option \<times> world" where
  "cap_read t w =
     (case read_result t of
        None \<Rightarrow> (None, w\<lparr>reads := reads w + 1\<rparr>)
      | Some img \<Rightarrow>
          (Some (next_ref w),
           w\<lparr>cv := (cv w)\<lparr>heap := (heap (cv w))(next_ref w := img)\<rparr>,
             next_ref := next_ref w + 1, reads := reads w + 1\<rparr>))"

definition cvtColor_BGR2RGB :: "image \<Rightarrow> image" where
  "cvtColor_BGR2RGB img = map (map (\<lambda>(b, g, r). (r, g, b))) img"

definition frame_time_target :: real where
  "frame_time_target = 1 / 15"

text \<open>
  The body of the \<open>while\<close> loop (lines 187 to 219). The first component is \<open>Some x\<close>
  when the body leaves the loop (a \<open>break\<close> or an exception), \<open>None\<close> when it runs to
  its end; the second is \<open>previous_count\<close>.
\<close>

definition loop_body ::
  "lib \<Rightarrow> detector \<Rightarrow> bool \<Rightarrow> tick \<Rightarrow> int \<Rightarrow> world \<Rightarrow> exit option \<times> int \<times> world" where
  "loop_body L model stop t previous_count w =
     (if stop then (Some Stopped, previous_count, emit Info_stopped w)
      else case cap_read t w of
          (None, w1) \<Rightarrow> (Some EndOfStream, previous_count, emit Warning_end w1)
        | (Some frame, w1) \<Rightarrow>
            (case process_frame L frame model (cv w1) of
               Inl e \<Rightarrow> (Some (Raised e), previous_count, w1)
             | Inr ((processed_frame, people_count), s') \<Rightarrow>
                 let w2 = w1\<lparr>cv := s', counts := counts w1 @ [people_count]\<rparr>;
                     rgb_frame = cvtColor_BGR2RGB (heap s' processed_frame);
                     w3 = emit (Image rgb_frame) w2;
                     (w4, previous_count') =
                       (if people_count \<noteq> previous_count
                        then (emit (Metric people_count) w3, people_count)
                        else (w3, previous_count));
                     elapsed_time = end_time t - start_time t;
                     w5 = (if elapsed_time < frame_time_target
                           then emit (Sleep (frame_time_target - elapsed_time)) w4
                           else w4)
                 in (None, previous_count', w5)))"

text \<open>The loop \<open>while cap.isOpened()\<close>, one tick per pass.\<close>

fun frame_loop ::
  "lib \<Rightarrow> detector \<Rightarrow> bool \<Rightarrow> tick list \<Rightarrow> int \<Rightarrow> world \<Rightarrow> exit \<times> world" where
  "frame_loop L model stop [] previous_count w = (Running, w)"
| "frame_loop L model stop (t # ts) previous_count w =
     (if \<not> is_opened t then (CapClosed, w)
      else case loop_body L model stop t previous_count w of
          (Some x, _, w') \<Rightarrow> (x, w')
        | (None, previous_count', w') \<Rightarrow> frame_loop L model stop ts previous_count' w')"







text \<open>Reading a trace.\<close>

definition metrics :: "event list \<Rightarrow> int list" where
  "metrics tr = concat (map (\<lambda>e. case e of Metric n \<Rightarrow> [n] | _ \<Rightarrow> []) tr)"

definition images :: "event list \<Rightarrow> image list" where
  "images tr = concat (map (\<lambda>e. case e of Image i \<Rightarrow> [i] | _ \<Rightarrow> []) tr)"

definition sleeps :: "event list \<Rightarrow> real list" where
  "sleeps tr = concat (map (\<lambda>e. case e of Sleep d \<Rightarrow> [d] | _ \<Rightarrow> []) tr)"

definition errors :: "event list \<Rightarrow> exn list" where
  "errors tr = concat (map (\<lambda>e. case e of Error_processing x \<Rightarrow> [x] | _ \<Rightarrow> []) tr)"

section \<open>Concrete inputs\<close>

text \<open>
  A small drawing library, a two by two frame, a store holding it, two detections and a
  detector stub that returns one result with the given boxes.
\<close>

definition lib0 :: lib where
  "lib0 = \<lparr>rectangle_pixels = (\<lambda>pt1 pt2 thickness. [pt1, pt2]),
           getTextSize = (\<lambda>label. (9 * int (length label), 11)),
           putText_pixels = (\<lambda>label org. [org]),
           format_2f = (\<lambda>c. ''0.90'')\<rparr>"

definition frame0 :: image where
  "frame0 = [[(7, 7, 7), (7, 7, 7)], [(7, 7, 7), (7, 7, 7)]]"

definition store0 :: cvstate where
  "store0 = \<lparr>heap = (\<lambda>r. frame0), calls = []\<rparr>"

definition person_box :: box where
  "person_box = \<lparr>cls = 0, xyxy = (0, 0, 1, 1), conf = 9 / 10\<rparr>"

definition car_box :: box where
  "car_box = \<lparr>cls = 2, xyxy = (0, 0, 1, 1), conf = 8 / 10\<rparr>"

definition stub :: "box list option \<Rightarrow> detector" where
  "stub bs img = Inr [\<lparr>boxes = bs\<rparr>]"

text \<open>
  A world in which nothing has happened yet, a detector stub that reports one person for
  every row of the frame, a pass of the loop that reads a frame and ends at a given
  clock reading, a pass whose read fails, a run over an uploaded video whose six frames
  hold 0, 0, 2, 2, 2 and 1 persons, and a run over an empty video in a world where the
  next \<open>os.unlink\<close> raises.
\<close>

definition world0 :: world where
  "world0 = \<lparr>cv = store0, next_ref = 0, trace = [], reads = 0, released = 0,
             temp_exists = False, unlink_script = [], counts = []\<rparr>"

definition rows_stub :: detector where
  "rows_stub img = Inr [\<lparr>boxes = Some (map (\<lambda>row. person_box) img)\<rparr>]"

definition frame_tick :: "image \<Rightarrow> real \<Rightarrow> tick" where
  "frame_tick img finish =
     \<lparr>is_opened = True, start_time = 0, read_result = Some img, end_time = finish\<rparr>"

definition end_tick :: tick where
  "end_tick = \<lparr>is_opened = True, start_time = 0, read_result = None, end_time = 0\<rparr>"




section \<open>Properties of process_frame\<close>




lemma calls_draw_person:
  "\<exists>p1 p2 q1 q2 label org.
     calls (draw_person L frame b s) =
       calls s @ [Rectangle frame p1 p2 (0, 255, 0) 2, Rectangle frame q1 q2 (0, 255, 0) (- 1),
                  PutText frame label org (0, 0, 0)]"
  by (auto simp: draw_person_def cv2_rectangle_def cv2_putText_def Let_def split: prod.splits)



lemma boxes_loop_fold:
  "boxes_loop L frame bs n s =
     (n + int (length (filter (\<lambda>b. cls b = 0) bs)),
      fold (draw_person L frame) (filter (\<lambda>b. cls b = 0) bs) s)"
  by (induction bs arbitrary: n s) simp_all

lemma fold_draw_person_calls:
  "\<exists>new. calls (fold (draw_person L frame) ps s) = calls s @ new \<and>
     length (filter is_rectangle new) = 2 * length ps \<and>
     length (filter is_outline new) = length ps \<and>
     length new = 3 * length ps"
proof (induction ps arbitrary: s)
  case Nil
  show ?case by simp
next
  case (Cons p ps)
  obtain p1 p2 q1 q2 label org where one:
    "calls (draw_person L frame p s) =
       calls s @ [Rectangle frame p1 p2 (0, 255, 0) 2, Rectangle frame q1 q2 (0, 255, 0) (- 1),
                  PutText frame label org (0, 0, 0)]"
    using calls_draw_person by blast
  obtain new where rest:
    "calls (fold (draw_person L frame) ps (draw_person L frame p s)) =
       calls (draw_person L frame p s) @ new"
    "length (filter is_rectangle new) = 2 * length ps"
    "length (filter is_outline new) = length ps"
    "length new = 3 * length ps"
    using Cons.IH by blast
  show ?case
    by (rule exI [of _ "[Rectangle frame p1 p2 (0, 255, 0) 2,
          Rectangle frame q1 q2 (0, 255, 0) (- 1), PutText frame label org (0, 0, 0)] @ new"])
       (simp add: one rest)
qed



lemma process_frame_returns:
  "model (heap s frame) = Inr (result # rest) \<Longrightarrow>
   process_frame L frame model s =
     Inr ((frame, int (length (persons result))), fold (draw_person L frame) (persons result) s)"
  by (simp add: process_frame_def persons_def detections_def boxes_loop_fold split: option.splits)

text \<open>
  C1 (amended). When the detector returns a result, \<open>process_frame\<close> returns the frame
  and a count equal to the number of detections whose class id is 0. That count is also
  the number of bounding-box rectangles (thickness 2) drawn. For every such detection a
  second, filled rectangle is drawn behind the label, so the calls of \<open>cv2.rectangle\<close>
  number twice the count.
\<close>

theorem process_frame_count:
  assumes "model (heap s frame) = Inr (result # rest)"
  shows "\<exists>s' new.
    process_frame L frame model s = Inr ((frame, int (length (persons result))), s') \<and>
    calls s' = calls s @ new \<and>
    length (filter is_outline new) = length (persons result) \<and>
    length (filter is_rectangle new) = 2 * length (persons result)"
proof -
  obtain new where new:
    "calls (fold (draw_person L frame) (persons result) s) = calls s @ new"
    "length (filter is_rectangle new) = 2 * length (persons result)"
    "length (filter is_outline new) = length (persons result)"
    using fold_draw_person_calls by blast
  from process_frame_returns [of model s frame result rest L] assms new show ?thesis by blast
qed

text \<open>The statement at two persons and a car: count 2, two outlines, four rectangles.\<close>

theorem process_frame_count_witness:
  "stub (Some [person_box, car_box, person_box]) (heap store0 0) =
     Inr (\<lparr>boxes = Some [person_box, car_box, person_box]\<rparr> # []) \<and>
   (\<exists>s' new.
      process_frame lib0 0 (stub (Some [person_box, car_box, person_box])) store0 =
        Inr ((0, 2), s') \<and>
      calls s' = calls store0 @ new \<and>
      length (filter is_outline new) = 2 \<and>
      length (filter is_rectangle new) = 4)"
proof -
  have h: "stub (Some [person_box, car_box, person_box]) (heap store0 0) =
     Inr (\<lparr>boxes = Some [person_box, car_box, person_box]\<rparr> # [])"
    by (simp add: stub_def)
  have p: "length (persons \<lparr>boxes = Some [person_box, car_box, person_box]\<rparr>) = 2"
    by (simp add: persons_def detections_def person_box_def car_box_def)
  from process_frame_count [of "stub (Some [person_box, car_box, person_box])" store0 0
      "\<lparr>boxes = Some [person_box, car_box, person_box]\<rparr>" "[]" lib0] h
  have "\<exists>s' new.
      process_frame lib0 0 (stub (Some [person_box, car_box, person_box])) store0 =
        Inr ((0, 2), s') \<and>
      calls s' = calls store0 @ new \<and>
      length (filter is_outline new) = 2 \<and>
      length (filter is_rectangle new) = 4"
    unfolding p by simp
  with h show ?thesis by blast
qed

text \<open>
  C1 as stated fails: with one person detected the count is 1 and two rectangles are
  drawn, the box of line 63 and the label background of line 70.
\<close>

theorem count_rectangles_counterexample:
  "process_frame lib0 0 (stub (Some [person_box])) store0 =
     Inr ((0, 1), draw_person lib0 0 person_box store0) \<and>
   filter is_rectangle (calls (draw_person lib0 0 person_box store0)) =
     [Rectangle 0 (0, 0) (1, 1) (0, 255, 0) 2,
      Rectangle 0 (0, - 21) (99, 0) (0, 255, 0) (- 1)]"
  by (simp add: process_frame_def stub_def person_box_def store0_def lib0_def
      draw_person_def cv2_rectangle_def cv2_putText_def Let_def)

text \<open>
  C2. When no detection of the returned result has class id 0, \<open>process_frame\<close>
  returns the frame with count 0 and the store is what it was: no pixel of any frame has
  changed and nothing was drawn.
\<close>

theorem process_frame_no_person:
  assumes "model (heap s frame) = Inr (result # rest)"
    and "\<forall>b \<in> set (detections result). cls b \<noteq> 0"
  shows "process_frame L frame model s = Inr ((frame, 0), s)"
proof -
  from assms(2) have "persons result = []"
    by (simp add: persons_def filter_empty_conv)
  with process_frame_returns [of model s frame result rest L] assms(1) show ?thesis by simp
qed

text \<open>The statement at a result of two cars.\<close>

theorem process_frame_no_person_witness:
  "stub (Some [car_box, car_box]) (heap store0 0) = Inr (\<lparr>boxes = Some [car_box, car_box]\<rparr> # []) \<and>
   map cls (detections \<lparr>boxes = Some [car_box, car_box]\<rparr>) = [2, 2] \<and>
   process_frame lib0 0 (stub (Some [car_box, car_box])) store0 = Inr ((0, 0), store0)"
  using process_frame_no_person [of "stub (Some [car_box, car_box])" store0 0
      "\<lparr>boxes = Some [car_box, car_box]\<rparr>" "[]" lib0]
  by (simp add: stub_def detections_def car_box_def)





text \<open>
  C9. When the \<open>boxes\<close> of the returned result is \<open>None\<close>, \<open>process_frame\<close>
  returns the frame with count 0, the store unchanged, and does not raise.
\<close>

theorem process_frame_boxes_none:
  assumes "model (heap s frame) = Inr (result # rest)"
    and "boxes result = None"
  shows "process_frame L frame model s = Inr ((frame, 0), s)"
  using assms by (simp add: process_frame_def)

text \<open>The statement at a stub whose result has no boxes.\<close>

theorem process_frame_boxes_none_witness:
  "stub None (heap store0 0) = Inr (\<lparr>boxes = None\<rparr> # []) \<and>
   boxes \<lparr>boxes = None\<rparr> = None \<and>
   process_frame lib0 0 (stub None) store0 = Inr ((0, 0), store0)"
  using process_frame_boxes_none [of "stub None" store0 0 "\<lparr>boxes = None\<rparr>" "[]" lib0]
  by (simp add: stub_def)

section \<open>Properties of the acquisition and display shell\<close>

text \<open>Reading a trace event by event.\<close>

lemma metrics_simps [simp]:
  "metrics [] = []"
  "metrics (tr @ tr') = metrics tr @ metrics tr'"
  "metrics (Metric n # tr) = n # metrics tr"
  "metrics (Image i # tr) = metrics tr"
  "metrics (Sleep d # tr) = metrics tr"
  "metrics (Info_stopped # tr) = metrics tr"
  "metrics (Warning_end # tr) = metrics tr"
  "metrics (Warning_upload # tr) = metrics tr"
  "metrics (Error_camera # tr) = metrics tr"
  "metrics (Error_video # tr) = metrics tr"
  "metrics (Error_processing x # tr) = metrics tr"
  "metrics (Success_camera # tr) = metrics tr"
  "metrics (Success_video # tr) = metrics tr"
  by (simp_all add: metrics_def)

lemma images_simps [simp]:
  "images [] = []"
  "images (tr @ tr') = images tr @ images tr'"
  "images (Metric n # tr) = images tr"
  "images (Image i # tr) = i # images tr"
  "images (Sleep d # tr) = images tr"
  "images (Info_stopped # tr) = images tr"
  "images (Warning_end # tr) = images tr"
  "images (Warning_upload # tr) = images tr"
  "images (Error_camera # tr) = images tr"
  "images (Error_video # tr) = images tr"
  "images (Error_processing x # tr) = images tr"
  "images (Success_camera # tr) = images tr"
  "images (Success_video # tr) = images tr"
  by (simp_all add: images_def)

lemma sleeps_simps [simp]:
  "sleeps [] = []"
  "sleeps (tr @ tr') = sleeps tr @ sleeps tr'"
  "sleeps (Metric n # tr) = sleeps tr"
  "sleeps (Image i # tr) = sleeps tr"
  "sleeps (Sleep d # tr) = d # sleeps tr"
  "sleeps (Info_stopped # tr) = sleeps tr"
  "sleeps (Warning_end # tr) = sleeps tr"
  "sleeps (Warning_upload # tr) = sleeps tr"
  "sleeps (Error_camera # tr) = sleeps tr"
  "sleeps (Error_video # tr) = sleeps tr"
  "sleeps (Error_processing x # tr) = sleeps tr"
  "sleeps (Success_camera # tr) = sleeps tr"
  "sleeps (Success_video # tr) = sleeps tr"
  by (simp_all add: sleeps_def)

lemma errors_simps [simp]:
  "errors [] = []"
  "errors (tr @ tr') = errors tr @ errors tr'"
  "errors (Metric n # tr) = errors tr"
  "errors (Image i # tr) = errors tr"
  "errors (Sleep d # tr) = errors tr"
  "errors (Info_stopped # tr) = errors tr"
  "errors (Warning_end # tr) = errors tr"
  "errors (Warning_upload # tr) = errors tr"
  "errors (Error_camera # tr) = errors tr"
  "errors (Error_video # tr) = errors tr"
  "errors (Error_processing x # tr) = x # errors tr"
  "errors (Success_camera # tr) = errors tr"
  "errors (Success_video # tr) = errors tr"
  by (simp_all add: errors_def)


















text \<open>
  C8. In a pass of the loop with the stop flag set, the loop ends as \<open>Stopped\<close> before
  anything is read; in a pass whose read fails, it ends as \<open>EndOfStream\<close> after that
  one read. Either way only the message is shown, no frame is processed, the frame store
  is untouched, and the passes that would follow never happen.
\<close>

theorem loop_stops:
  assumes "is_opened t" and "stop \<or> read_result t = None"
  shows "\<exists>w'. frame_loop L model stop (t # ts) prev w =
        ((if stop then Stopped else EndOfStream), w') \<and>
     trace w' = trace w @ [if stop then Info_stopped else Warning_end] \<and>
     reads w' = (if stop then reads w else reads w + 1) \<and>
     counts w' = counts w \<and> cv w' = cv w"
  using assms
  by (auto simp: loop_body_def cap_read_def emit_def)

text \<open>
  The statement at a set stop flag with a frame waiting, and at a failed read with a
  frame behind it.
\<close>

theorem loop_stops_witness:
  "is_opened (frame_tick frame0 0) \<and>
   (\<exists>w'. frame_loop lib0 rows_stub True [frame_tick frame0 0, end_tick] 0 world0 = (Stopped, w') \<and>
      trace w' = [Info_stopped] \<and> reads w' = 0 \<and> counts w' = [] \<and> cv w' = store0) \<and>
   is_opened end_tick \<and> read_result end_tick = None \<and>
   (\<exists>w'. frame_loop lib0 rows_stub False [end_tick, frame_tick frame0 0] 0 world0 =
        (EndOfStream, w') \<and>
      trace w' = [Warning_end] \<and> reads w' = 1 \<and> counts w' = [] \<and> cv w' = store0)"
proof -
  have a: "is_opened (frame_tick frame0 0)" by (simp add: frame_tick_def)
  have b: "is_opened end_tick" "read_result end_tick = None" by (simp_all add: end_tick_def)
  from loop_stops [of "frame_tick frame0 0" True lib0 rows_stub "[end_tick]" 0 world0] a
  have 1: "\<exists>w'. frame_loop lib0 rows_stub True [frame_tick frame0 0, end_tick] 0 world0 =
        (Stopped, w') \<and>
      trace w' = [Info_stopped] \<and> reads w' = 0 \<and> counts w' = [] \<and> cv w' = store0"
    by (simp add: world0_def)
  from loop_stops [of end_tick False lib0 rows_stub "[frame_tick frame0 0]" 0 world0] b
  have 2: "\<exists>w'. frame_loop lib0 rows_stub False [end_tick, frame_tick frame0 0] 0 world0 =
        (EndOfStream, w') \<and>
      trace w' = [Warning_end] \<and> reads w' = 1 \<and> counts w' = [] \<and> cv w' = store0"
    by (simp add: world0_def)
  from a b 1 2 show ?thesis by blast
qed



end
